theory Spec2Isabelle
  imports Complex_Main
begin

section \<open>Data model of \<open>players/NATHAN_bot.py\<close>\<close>

text \<open>
  The policy is one Python class, \<open>NATHANBot\<close>, whose methods read a game-state snapshot
  and mutate a handful of instance fields. The embedding below follows the source method
  by method. Conventions:
  \<^item> Python \<open>int\<close> is \<^typ>\<open>int\<close>; a Python \<open>float\<close> that is only added, scaled
    and compared is idealised as a \<^typ>\<open>real\<close> (rounding is outside the model); the
    float that line 164 converts to an \<open>int\<close> is a \<open>pyfloat\<close>, which has the
    infinities and the NaN, since that conversion raises on them and on values beyond
    the range of a double;
  \<^item> an exception is a value \<open>Inl e\<close> of a sum type;
  \<^item> a method that mutates \<open>self\<close> takes the instance and returns the new one;
  \<^item> the leading underscore of a private method's name is dropped, since an Isabelle
    name cannot start with one.
\<close>

datatype error = KeyError | ValueError | OverflowError | CollaboratorError

text \<open>
  Modelled from the spec: the enum \<open>PlayerAction\<close> of \<open>bot_api\<close> is missing. The source
  names the members \<open>FOLD\<close>, \<open>CHECK\<close>, \<open>CALL\<close> and \<open>RAISE\<close>; \<open>ALL_IN\<close> stands for
  a member the policy never names.
\<close>

datatype PlayerAction = FOLD | CHECK | CALL | RAISE | ALL_IN

text \<open>
  Modelled from the spec: the enums \<open>Rank\<close> and the suits of \<open>engine.cards\<close> are missing.
  Ranks run from two to ace; \<open>Rank.ACE.value\<close> is 14 (the source's own wheel test on
  line 185 writes the ace as 14) and \<open>Rank.KING.value\<close> is 13.
\<close>

datatype Rank = TWO | THREE | FOUR | FIVE | SIX | SEVEN | EIGHT | NINE | TEN
  | JACK | QUEEN | KING | ACE

fun rank_value :: "Rank \<Rightarrow> int" where
  "rank_value TWO = 2"
| "rank_value THREE = 3"
| "rank_value FOUR = 4"
| "rank_value FIVE = 5"
| "rank_value SIX = 6"
| "rank_value SEVEN = 7"
| "rank_value EIGHT = 8"
| "rank_value NINE = 9"
| "rank_value TEN = 10"
| "rank_value JACK = 11"
| "rank_value QUEEN = 12"
| "rank_value KING = 13"
| "rank_value ACE = 14"

datatype Suit = HEARTS | DIAMONDS | CLUBS | SPADES

record Card =
  rank :: Rank
  suit :: Suit

text \<open>
  The fields of \<open>GameState\<close> (of \<open>engine.poker_game\<close>) that the policy reads.
  \<open>player_bets\<close> is a dict from player name to bet; it is kept as an association list in
  insertion order, because \<open>hand_complete\<close> iterates over its items. A lookup reads the
  first entry of a key.
\<close>

record GameState =
  round_name :: string
  current_bet :: int
  big_blind :: int
  pot :: int
  player_bets :: "(string \<times> int) list"
  community_cards :: "Card list"

text \<open>
  The instance fields set by \<open>__init__\<close>. \<open>opponent_stats\<close> is a dict of dicts of
  counters, \<open>Dict[str, Dict[str, int]]\<close>.
\<close>

type_synonym stats = "string \<rightharpoonup> int"

record NATHANBot =
  name :: string
  hands_played :: int
  hands_won :: int
  aggression :: real
  last_raised_preflop :: bool
  min_confidence_to_raise :: real
  min_confidence_to_play :: real
  opponent_stats :: "string \<rightharpoonup> stats"

definition init :: "string \<Rightarrow> NATHANBot" where
  "init n = \<lparr> name = n, hands_played = 0, hands_won = 0, aggression = 0.6,
     last_raised_preflop = False, min_confidence_to_raise = 0.75,
     min_confidence_to_play = 0.45, opponent_stats = Map.empty \<rparr>"

section \<open>External collaborators\<close>

text \<open>
  The policy calls into \<open>bot_api\<close> (\<open>GameInfoAPI\<close>, the base class \<open>PokerBotAPI\<close>) and
  \<open>engine.cards\<close> (\<open>HandEvaluator\<close>), none of which is part of the file. They are
  parameters of the model, collected in the record \<open>Engine\<close>, and each of them may
  raise; every theorem about the policy holds for all of them.
  \<^item> \<open>evaluate_best_hand\<close> gives the category label of the best hand, or raises. The
    source binds the other two components of the result (\<open>hand_type, _, best5\<close>) and never
    reads them, so they are left out.
  \<^item> \<open>HAND_RANKINGS\<close> is the dict from category label to ordinal strength.
  \<^item> \<open>get_position_info\<close> gives a dict read with \<open>.get\<close> at the keys \<open>'is_last'\<close> and
    \<open>'players_after'\<close>, or raises; a field is \<open>None\<close> when its key is absent.
  \<^item> \<open>calculate_bet_amount\<close> and \<open>get_pot_odds\<close> are the two arithmetic helpers.
  \<^item> \<open>api_tournament_start\<close> is the base class's hook, called through \<open>super()\<close>: it may
    change the instance and may raise.
\<close>

record position_info =
  is_last :: "bool option"
  players_after :: "int option"

text \<open>
  Modelled from the spec: the result type of \<open>GameInfoAPI.get_pot_odds\<close> is missing. The
  spec gives the quotient of pot and amount owed, and a special "free" value when nothing
  is owed; the free value compares as at least any threshold.
\<close>

datatype pot_odds = Free | Odds real

fun odds_ge :: "pot_odds \<Rightarrow> real \<Rightarrow> bool" where
  "odds_ge Free x = True"
| "odds_ge (Odds r) x = (x \<le> r)"

record Engine =
  evaluate_best_hand :: "Card list \<Rightarrow> error + string"
  HAND_RANKINGS :: "string \<rightharpoonup> int"
  get_position_info :: "GameState \<Rightarrow> string \<Rightarrow> error + position_info"
  calculate_bet_amount :: "int \<Rightarrow> int \<Rightarrow> error + int"
  get_pot_odds :: "int \<Rightarrow> int \<Rightarrow> error + pot_odds"
  api_tournament_start :: "NATHANBot \<Rightarrow> string list \<Rightarrow> int \<Rightarrow> NATHANBot \<times> error option"

text \<open>\<open>d.get(k, default)\<close> on a dict kept as an association list or as a map.\<close>

definition dict_get :: "('k \<times> 'v) list \<Rightarrow> 'k \<Rightarrow> 'v \<Rightarrow> 'v" where
  "dict_get d k dflt = (case map_of d k of None \<Rightarrow> dflt | Some v \<Rightarrow> v)"

definition rankings_get :: "Engine \<Rightarrow> string \<Rightarrow> int \<Rightarrow> int" where
  "rankings_get E k dflt = (case HAND_RANKINGS E k of None \<Rightarrow> dflt | Some v \<Rightarrow> v)"

section \<open>Raise sizing\<close>

text \<open>
  A Python float: a finite value, an infinity or the NaN. A finite value is kept as the
  real it stands for. A real is beyond the range of a double when its magnitude is at
  least \<open>2^1024 - 2^970\<close>, half a unit in the last place above the largest double:
  from there on rounding to nearest no longer gives a finite double.
\<close>

datatype pyfloat = Finite real | PosInf | NegInf | NaN

definition beyond_double :: "real \<Rightarrow> bool" where
  "beyond_double x = (2 ^ 1024 - 2 ^ 970 \<le> \<bar>x\<bar>)"

text \<open>
  \<open>float(i)\<close>, the conversion that \<open>int * float\<close> applies to its left operand:
  \<open>OverflowError\<close> when the int is too large for a double.
\<close>

definition int_to_float :: "int \<Rightarrow> error + real" where
  "int_to_float i =
     (if beyond_double (real_of_int i) then Inl OverflowError else Inr (real_of_int i))"

text \<open>
  The product of a finite float and a float: a product beyond the range is the infinity
  of its sign, zero times an infinity is the NaN, and the NaN stays.
\<close>

definition signed_inf :: "bool \<Rightarrow> pyfloat" where
  "signed_inf positive = (if positive then PosInf else NegInf)"

fun float_mul :: "real \<Rightarrow> pyfloat \<Rightarrow> pyfloat" where
  "float_mul x (Finite y) =
     (if beyond_double (x * y) then signed_inf (0 < x * y) else Finite (x * y))"
| "float_mul x PosInf = (if x = 0 then NaN else signed_inf (0 < x))"
| "float_mul x NegInf = (if x = 0 then NaN else signed_inf (x < 0))"
| "float_mul x NaN = NaN"

text \<open>
  Python's \<open>int(x)\<close> on a float truncates towards zero; it raises \<open>OverflowError\<close> on an
  infinity and \<open>ValueError\<close> on the NaN.
\<close>

fun py_int :: "pyfloat \<Rightarrow> error + int" where
  "py_int (Finite x) = Inr (if 0 \<le> x then \<lfloor>x\<rfloor> else \<lceil>x\<rceil>)"
| "py_int PosInf = Inl OverflowError"
| "py_int NegInf = Inl OverflowError"
| "py_int NaN = Inl ValueError"

text \<open>
  The argument \<open>factor\<close> is annotated \<open>float\<close>, and the callers pass the float literals
  \<open>2.5\<close>, \<open>2.0\<close>, \<open>1.5\<close> and \<open>0.6\<close> and the int literal \<open>1\<close>. An int times an int
  is an int of any size, and \<open>int\<close> of an int is that int.
\<close>

datatype number = PyInt int | PyFloat pyfloat

text \<open>\<open>int(game_state.pot * factor)\<close>, line 164.\<close>

fun desired_amount :: "int \<Rightarrow> number \<Rightarrow> error + int" where
  "desired_amount pt (PyInt k) = Inr (pt * k)"
| "desired_amount pt (PyFloat f) =
     (case int_to_float pt of
        Inl e \<Rightarrow> Inl e
      | Inr x \<Rightarrow> py_int (float_mul x f))"

text \<open>
  \<open>_choose_raise_amount(self, game_state, min_bet, max_bet, factor)\<close>, lines 161--169.
  It reads no field of \<open>self\<close>, and line 164 is its only statement that can raise.
\<close>

definition choose_raise_amount :: "GameState \<Rightarrow> int \<Rightarrow> int \<Rightarrow> number \<Rightarrow> error + int" where
  "choose_raise_amount game_state min_bet max_bet factor =
     (case desired_amount (pot game_state) factor of
        Inl e \<Rightarrow> Inl e
      | Inr desired \<Rightarrow>
         (let amount = max min_bet desired;
              amount = min amount max_bet
          in if amount < min_bet then Inr min_bet else Inr amount))"

text \<open>
  \<open>return PlayerAction.RAISE, self._choose_raise_amount(...)\<close>: the pair when the
  sizing returns, its exception when it raises.
\<close>

definition return_raise :: "error + int \<Rightarrow> error + (PlayerAction \<times> int)" where
  "return_raise sized = (case sized of Inl e \<Rightarrow> Inl e | Inr amount \<Rightarrow> Inr (RAISE, amount))"

section \<open>Preflop strength\<close>

text \<open>
  \<open>_evaluate_preflop_strength\<close>, lines 88--101. The unpacking \<open>c1, c2 = hole_cards\<close>
  raises \<open>ValueError\<close> unless there are exactly two cards. A Python \<open>bool\<close> multiplied
  by a float is 0 or the float.
\<close>

definition evaluate_preflop_strength :: "Card list \<Rightarrow> error + real" where
  "evaluate_preflop_strength hole_cards =
     (case hole_cards of
        [c1, c2] \<Rightarrow>
          (let r1 = rank_value (rank c1); r2 = rank_value (rank c2);
               suited = (suit c1 = suit c2);
               high_card_bonus = of_bool (max r1 r2 \<ge> rank_value KING) * 0.18
                               + of_bool (max r1 r2 = rank_value ACE) * 0.12;
               pair_bonus = (if r1 = r2 then 0.3 else 0.0);
               distance = \<bar>r1 - r2\<bar>;
               connector_bonus = (if distance \<le> 1 then 0.15 else (if distance = 2 then 0.08 else 0.0));
               suited_bonus = (if suited then 0.12 else 0.0);
               base = real_of_int (r1 + r2) / (2.0 * real_of_int (rank_value ACE));
               score = base * 0.4 + pair_bonus + connector_bonus + suited_bonus + high_card_bonus
           in Inr (min 1.0 score))
      | _ \<Rightarrow> Inl ValueError)"

section \<open>Draw detection\<close>

text \<open>
  \<open>_has_strong_draw\<close>, lines 171--188. The first loop runs over the distinct suits; the
  second over the start of every window of four in the sorted distinct rank values;
  \<open>issubset\<close> asks that every element of the left set occurs in \<open>ranks\<close>.
\<close>

definition has_strong_draw :: "Card list \<Rightarrow> bool" where
  "has_strong_draw all_cards =
     (let suits = map suit all_cards in
      if list_ex (\<lambda>s. 4 \<le> count_list suits s) (remdups suits) then True
      else
        let ranks = sort (remdups (map (\<lambda>c. rank_value (rank c)) all_cards)) in
        if length ranks \<ge> 4 \<and>
           list_ex (\<lambda>i. ranks ! (i + 3) - ranks ! i = 3) [0 ..< length ranks - 3] then True
        else if list_all (\<lambda>r. r \<in> set ranks) [14, 2, 3, 4] \<or>
                list_all (\<lambda>r. r \<in> set ranks) [2, 3, 4, 5] then True
        else False)"

section \<open>Value or bluff\<close>

text \<open>\<open>_should_bluff_or_value\<close>, lines 190--196.\<close>

definition should_bluff_or_value :: "Engine \<Rightarrow> NATHANBot \<Rightarrow> int \<Rightarrow> int \<Rightarrow> bool" where
  "should_bluff_or_value E self pt rank_val =
     (if rank_val \<ge> rankings_get E ''pair'' 1
      then (if real_of_int pt > 2 * max 1 (aggression self * 10) then True else False)
      else (if aggression self > 0.6 then True else False))"

section \<open>Preflop decision\<close>

text \<open>
  \<open>_preflop\<close>, lines 46--86. The two guarded blocks fall through to the next one when
  none of their returns fires; \<open>otherwise\<close> is the code after both, \<open>medium\<close> the second
  block followed by it.
\<close>

definition preflop ::
  "Engine \<Rightarrow> NATHANBot \<Rightarrow> GameState \<Rightarrow> Card list \<Rightarrow> PlayerAction list \<Rightarrow> int \<Rightarrow> int
     \<Rightarrow> error + (PlayerAction \<times> int)" where
  "preflop E self game_state hole_cards legal_actions min_bet max_bet =
     (if length hole_cards \<noteq> 2 then Inr (FOLD, 0)
      else
        case evaluate_preflop_strength hole_cards of
          Inl e \<Rightarrow> Inl e
        | Inr confidence \<Rightarrow>
        case get_position_info E game_state (name self) of
          Inl e \<Rightarrow> Inl e
        | Inr pos \<Rightarrow>
        case calculate_bet_amount E (current_bet game_state)
               (dict_get (player_bets game_state) (name self) 0) of
          Inl e \<Rightarrow> Inl e
        | Inr to_call \<Rightarrow>
           (let late = (case is_last pos of Some True \<Rightarrow> True
                        | _ \<Rightarrow> (case players_after pos of None \<Rightarrow> 0 | Some n \<Rightarrow> n) \<le> 1);
                otherwise = (if CHECK \<in> set legal_actions then (CHECK, 0) else (FOLD, 0));
                medium =
                  (if confidence \<ge> min_confidence_to_play self then
                     (if to_call = 0 then
                        (if CHECK \<in> set legal_actions then Inr (CHECK, 0)
                         else if late \<and> RAISE \<in> set legal_actions
                           then return_raise (choose_raise_amount game_state min_bet max_bet
                                               (PyFloat (Finite 1.5)))
                         else Inr otherwise)
                      else
                        (case get_pot_odds E (pot game_state) to_call of
                           Inl e \<Rightarrow> Inl e
                         | Inr pot_odds \<Rightarrow>
                            (if odds_ge pot_odds 2.5 \<and> CALL \<in> set legal_actions
                             then Inr (CALL, 0)
                             else Inr otherwise)))
                   else Inr otherwise)
            in if confidence \<ge> min_confidence_to_raise self then
                 (if RAISE \<in> set legal_actions
                    then return_raise (choose_raise_amount game_state min_bet max_bet
                                         (PyFloat (Finite (if late then 2.5 else 2.0))))
                  else if CALL \<in> set legal_actions \<and> to_call \<le> big_blind game_state * 2
                    then Inr (CALL, 0)
                  else medium)
               else medium))"

section \<open>Postflop decision\<close>

text \<open>
  The local helper \<open>fallback_check_call_fold\<close> of \<open>_postflop\<close>, lines 111--116.
\<close>

definition fallback_check_call_fold :: "PlayerAction list \<Rightarrow> PlayerAction \<times> int" where
  "fallback_check_call_fold legal_actions =
     (if CHECK \<in> set legal_actions then (CHECK, 0)
      else if CALL \<in> set legal_actions then (CALL, 0)
      else (FOLD, 0))"

text \<open>
  \<open>_postflop\<close>, lines 103--159. \<open>HAND_RANKINGS[hand_type]\<close> and
  \<open>game_state.player_bets[self.name]\<close> (line 135) are subscripts: they raise \<open>KeyError\<close>
  on a missing key. Line 147 reads the same dict with \<open>.get(self.name, 0)\<close>.
\<close>

definition postflop ::
  "Engine \<Rightarrow> NATHANBot \<Rightarrow> GameState \<Rightarrow> Card list \<Rightarrow> PlayerAction list \<Rightarrow> int \<Rightarrow> int
     \<Rightarrow> error + (PlayerAction \<times> int)" where
  "postflop E self game_state hole_cards legal_actions min_bet max_bet =
     (let all_cards = hole_cards @ community_cards game_state in
      case evaluate_best_hand E all_cards of
        Inl e \<Rightarrow> Inl e
      | Inr hand_type \<Rightarrow>
      case HAND_RANKINGS E hand_type of
        None \<Rightarrow> Inl KeyError
      | Some rank_val \<Rightarrow>
         (if last_raised_preflop self \<and> current_bet game_state = 0
             \<and> RAISE \<in> set legal_actions
             \<and> (rank_val \<ge> rankings_get E ''pair'' 1 \<or> has_strong_draw all_cards)
          then return_raise (choose_raise_amount game_state min_bet max_bet
                                 (PyFloat (Finite 0.6)))
          else if rank_val \<ge> rankings_get E ''two_pair'' 2 then
            (if RAISE \<in> set legal_actions
             then return_raise (choose_raise_amount game_state min_bet max_bet (PyInt 1))
             else Inr (fallback_check_call_fold legal_actions))
          else if rank_val \<ge> rankings_get E ''pair'' 1 then
            (let pt = pot game_state in
             if CALL \<in> set legal_actions then
               (case map_of (player_bets game_state) (name self) of
                  None \<Rightarrow> Inl KeyError
                | Some own_bet \<Rightarrow>
                  case calculate_bet_amount E (current_bet game_state) own_bet of
                    Inl e \<Rightarrow> Inl e
                  | Inr to_call \<Rightarrow>
                  case get_pot_odds E pt to_call of
                    Inl e \<Rightarrow> Inl e
                  | Inr pot_odds \<Rightarrow>
                     (if odds_ge pot_odds 1.5 \<or> to_call = 0 then
                        (if RAISE \<in> set legal_actions
                            \<and> should_bluff_or_value E self pt rank_val
                         then return_raise (choose_raise_amount game_state min_bet max_bet (PyInt 1))
                         else Inr (CALL, 0))
                      else Inr (fallback_check_call_fold legal_actions)))
             else Inr (fallback_check_call_fold legal_actions))
          else if has_strong_draw all_cards then
            (case calculate_bet_amount E (current_bet game_state)
                    (dict_get (player_bets game_state) (name self) 0) of
               Inl e \<Rightarrow> Inl e
             | Inr to_call \<Rightarrow>
               case get_pot_odds E (pot game_state) to_call of
                 Inl e \<Rightarrow> Inl e
               | Inr pot_odds \<Rightarrow>
                  (if to_call = 0 \<and> RAISE \<in> set legal_actions
                   then return_raise (choose_raise_amount game_state min_bet max_bet
                                 (PyFloat (Finite 0.6)))
                   else if odds_ge pot_odds 3.0 \<and> CALL \<in> set legal_actions then Inr (CALL, 0)
                   else Inr (fallback_check_call_fold legal_actions)))
          else Inr (fallback_check_call_fold legal_actions)))"

section \<open>The decision entry point\<close>

text \<open>
  \<open>get_action\<close>, lines 27--44. The result pairs the instance after the call with what
  the call returned or raised. Only the preflop branch assigns a field, and only after
  \<open>_preflop\<close> has returned.
\<close>

definition get_action ::
  "Engine \<Rightarrow> NATHANBot \<Rightarrow> GameState \<Rightarrow> Card list \<Rightarrow> PlayerAction list \<Rightarrow> int \<Rightarrow> int
     \<Rightarrow> NATHANBot \<times> (error + (PlayerAction \<times> int))" where
  "get_action E self game_state hole_cards legal_actions min_bet max_bet =
     (if legal_actions = [] then (self, Inr (FOLD, 0))
      else if round_name game_state = ''preflop'' then
        (case preflop E self game_state hole_cards legal_actions min_bet max_bet of
           Inl e \<Rightarrow> (self, Inl e)
         | Inr action \<Rightarrow>
            (if fst action = RAISE
             then (self\<lparr>last_raised_preflop := True\<rparr>, Inr action)
             else (self\<lparr>last_raised_preflop := False\<rparr>, Inr action)))
      else (self, postflop E self game_state hole_cards legal_actions min_bet max_bet))"

section \<open>Lifecycle hooks\<close>

text \<open>
  \<open>hand_result\<close> is a \<open>Dict[str, Any]\<close> of which only the key \<open>'winners'\<close> is read;
  \<open>winners\<close> is \<open>None\<close> when the key is absent.
\<close>

record hand_result =
  winners :: "string list option"

definition is_winner :: "hand_result \<Rightarrow> string \<Rightarrow> bool" where
  "is_winner result player = (case winners result of None \<Rightarrow> False | Some ws \<Rightarrow> player \<in> set ws)"

text \<open>\<open>d[k] += 1\<close>: \<open>KeyError\<close> when the key is missing.\<close>

definition dict_incr :: "stats \<Rightarrow> string \<Rightarrow> error + stats" where
  "dict_incr d k = (case d k of None \<Rightarrow> Inl KeyError | Some v \<Rightarrow> Inr (d(k \<mapsto> v + 1)))"

definition new_stats :: stats where
  "new_stats = [''seen'' \<mapsto> 0, ''raised'' \<mapsto> 0, ''won'' \<mapsto> 0]"

text \<open>
  One pass of the loop body of \<open>hand_complete\<close>, lines 211--218, for an opponent (the
  \<open>continue\<close> for the policy's own name is in \<open>update_opponents\<close>). The inner dict is
  mutated in place, so what was already written stays when a later statement raises: the
  result is the dict so far, and the exception if there is one.
\<close>

definition note_opponent ::
  "GameState \<Rightarrow> hand_result \<Rightarrow> string \<Rightarrow> int \<Rightarrow> (string \<rightharpoonup> stats)
     \<Rightarrow> (string \<rightharpoonup> stats) \<times> error option" where
  "note_opponent game_state result player bet opp =
     (let stats0 = (case opp player of None \<Rightarrow> new_stats | Some d \<Rightarrow> d);
          opp0 = opp(player \<mapsto> stats0)
      in case dict_incr stats0 ''seen'' of
           Inl e \<Rightarrow> (opp0, Some e)
         | Inr stats1 \<Rightarrow>
            (case (if bet > big_blind game_state * 2 then dict_incr stats1 ''raised''
                   else Inr stats1) of
               Inl e \<Rightarrow> (opp0(player \<mapsto> stats1), Some e)
             | Inr stats2 \<Rightarrow>
                (case (if is_winner result player then dict_incr stats2 ''won''
                       else Inr stats2) of
                   Inl e \<Rightarrow> (opp0(player \<mapsto> stats2), Some e)
                 | Inr stats3 \<Rightarrow> (opp0(player \<mapsto> stats3), None))))"

text \<open>The \<open>for\<close> loop over \<open>game_state.player_bets.items()\<close>; it stops at the first exception.\<close>

fun update_opponents ::
  "string \<Rightarrow> GameState \<Rightarrow> hand_result \<Rightarrow> (string \<times> int) list \<Rightarrow> (string \<rightharpoonup> stats)
     \<Rightarrow> (string \<rightharpoonup> stats) \<times> error option" where
  "update_opponents own game_state result [] opp = (opp, None)"
| "update_opponents own game_state result ((player, bet) # items) opp =
     (if player = own then update_opponents own game_state result items opp
      else
        case note_opponent game_state result player bet opp of
          (opp', Some e) \<Rightarrow> (opp', Some e)
        | (opp', None) \<Rightarrow> update_opponents own game_state result items opp')"

text \<open>
  \<open>hand_complete\<close>, lines 198--220. The \<open>try\<close> around the loop catches every exception
  and passes, so the method returns the instance with whatever the loop had written.
\<close>

definition hand_complete :: "NATHANBot \<Rightarrow> GameState \<Rightarrow> hand_result \<Rightarrow> NATHANBot" where
  "hand_complete self game_state result =
     (let self1 = self\<lparr>hands_played := hands_played self + 1\<rparr>;
          self2 = (if is_winner result (name self1)
                   then self1\<lparr>hands_won := hands_won self1 + 1,
                              aggression := min 0.8 (aggression self1 + 0.01)\<rparr>
                   else self1\<lparr>aggression := max 0.3 (aggression self1 - 0.005)\<rparr>)
      in self2\<lparr>opponent_stats :=
                 fst (update_opponents (name self2) game_state result
                        (player_bets game_state) (opponent_stats self2))\<rparr>)"

text \<open>
  \<open>tournament_start\<close>, lines 222--233: the base class's hook first; when it raises, the
  exception leaves the method at once.
\<close>

definition tournament_start ::
  "Engine \<Rightarrow> NATHANBot \<Rightarrow> string list \<Rightarrow> int \<Rightarrow> NATHANBot \<times> error option" where
  "tournament_start E self players starting_chips =
     (case api_tournament_start E self players starting_chips of
        (self0, Some e) \<Rightarrow> (self0, Some e)
      | (self0, None) \<Rightarrow>
         (let self1 = self0\<lparr>hands_played := 0\<rparr>;
              self2 = self1\<lparr>hands_won := 0\<rparr>
          in (if length players \<le> 4 then self2\<lparr>aggression := 0.65\<rparr>
              else if length players \<ge> 8 then self2\<lparr>aggression := 0.45\<rparr>
              else self2\<lparr>aggression := 0.55\<rparr>, None)))"

section \<open>A concrete engine\<close>

text \<open>
  Modelled from the spec: \<open>HandEvaluator\<close> and \<open>GameInfoAPI\<close> are missing. The spec's
  contracts: the evaluator maps at least five cards to the category of the best five-card
  hand, and the table maps category labels to an ordinal that grows with strength;
  amount owed is \<open>max(0, current_bet - already_contributed)\<close>; pot odds are pot divided
  by amount owed, with the free value when nothing is owed; the position info tells
  whether the participant acts last and how many act after. The concrete engine serves
  to run the policy on concrete inputs; the position is a parameter of it, and its base
  class hook does nothing.
\<close>

definition values_of :: "Card list \<Rightarrow> int list" where
  "values_of cards = map (\<lambda>c. rank_value (rank c)) cards"

definition has_straight :: "int list \<Rightarrow> bool" where
  "has_straight vals =
     list_ex (\<lambda>lo. list_all (\<lambda>k. (if lo + k = 1 then 14 else lo + k) \<in> set vals) [0, 1, 2, 3, 4])
       [1, 2, 3, 4, 5, 6, 7, 8, 9, 10]"

definition all_suits :: "Suit list" where
  "all_suits = [HEARTS, DIAMONDS, CLUBS, SPADES]"

definition multiples :: "nat \<Rightarrow> Card list \<Rightarrow> int list" where
  "multiples n cards = filter (\<lambda>v. n \<le> count_list (values_of cards) v) (remdups (values_of cards))"

definition best_hand_type :: "Card list \<Rightarrow> error + string" where
  "best_hand_type cards =
     (if length cards < 5 then Inl ValueError
      else if list_ex (\<lambda>s. list_all (\<lambda>v. v \<in> set (values_of (filter (\<lambda>c. suit c = s) cards)))
                              [10, 11, 12, 13, 14]) all_suits
        then Inr ''royal_flush''
      else if list_ex (\<lambda>s. has_straight (values_of (filter (\<lambda>c. suit c = s) cards))) all_suits
        then Inr ''straight_flush''
      else if multiples 4 cards \<noteq> [] then Inr ''four_of_a_kind''
      else if multiples 3 cards \<noteq> [] \<and> 2 \<le> length (multiples 2 cards) then Inr ''full_house''
      else if list_ex (\<lambda>s. 5 \<le> count_list (map suit cards) s) all_suits then Inr ''flush''
      else if has_straight (values_of cards) then Inr ''straight''
      else if multiples 3 cards \<noteq> [] then Inr ''three_of_a_kind''
      else if 2 \<le> length (multiples 2 cards) then Inr ''two_pair''
      else if multiples 2 cards \<noteq> [] then Inr ''pair''
      else Inr ''high_card'')"

definition hand_rankings :: "string \<rightharpoonup> int" where
  "hand_rankings = map_of
     [(''high_card'', 1), (''pair'', 2), (''two_pair'', 3), (''three_of_a_kind'', 4),
      (''straight'', 5), (''flush'', 6), (''full_house'', 7), (''four_of_a_kind'', 8),
      (''straight_flush'', 9), (''royal_flush'', 10)]"

definition bet_amount :: "int \<Rightarrow> int \<Rightarrow> int" where
  "bet_amount cur contributed = max 0 (cur - contributed)"

definition pot_odds_of :: "int \<Rightarrow> int \<Rightarrow> pot_odds" where
  "pot_odds_of pt owed = (if owed = 0 then Free else Odds (real_of_int pt / real_of_int owed))"

definition engine :: "position_info \<Rightarrow> Engine" where
  "engine pos =
     \<lparr> evaluate_best_hand = best_hand_type,
       HAND_RANKINGS = hand_rankings,
       get_position_info = (\<lambda>game_state player. Inr pos),
       calculate_bet_amount = (\<lambda>cur contributed. Inr (bet_amount cur contributed)),
       get_pot_odds = (\<lambda>pt owed. Inr (pot_odds_of pt owed)),
       api_tournament_start = (\<lambda>self players starting_chips. (self, None)) \<rparr>"

section \<open>Concrete inputs\<close>

text \<open>
  A table of players at which the policy is run below: the constructor of a card, a
  seat with two players still to act, a preflop state in which the policy owes the big
  blind, a flop \<open>2\<diamondsuit> 7\<clubsuit> 9\<spadesuit>\<close>, the same flop with no entry for the policy in
  \<open>player_bets\<close>, the instance after it has raised with pocket aces, and five cards
  of four suits that hold ace, two, three and four.
\<close>

definition mk_card :: "Rank \<Rightarrow> Suit \<Rightarrow> Card" where
  "mk_card r s = \<lparr> rank = r, suit = s \<rparr>"

definition early_position :: position_info where
  "early_position = \<lparr> is_last = Some False, players_after = Some 2 \<rparr>"

definition preflop_state :: GameState where
  "preflop_state =
     \<lparr> round_name = ''preflop'', current_bet = 20, big_blind = 20, pot = 30,
       player_bets = [(''NATHAN'', 0), (''villain'', 20)], community_cards = [] \<rparr>"

definition flop_state :: GameState where
  "flop_state =
     \<lparr> round_name = ''flop'', current_bet = 20, big_blind = 20, pot = 60,
       player_bets = [(''NATHAN'', 0), (''villain'', 20)],
       community_cards = [mk_card TWO DIAMONDS, mk_card SEVEN CLUBS, mk_card NINE SPADES] \<rparr>"

definition flop_state_without_own_bet :: GameState where
  "flop_state_without_own_bet = flop_state\<lparr>player_bets := [(''villain'', 20)]\<rparr>"

definition after_raise :: NATHANBot where
  "after_raise =
     fst (get_action (engine early_position) (init ''NATHAN'') preflop_state
            [mk_card ACE CLUBS, mk_card ACE DIAMONDS] [CALL, RAISE] 20 1000)"

definition wheel_cards :: "Card list" where
  "wheel_cards =
     [mk_card ACE SPADES, mk_card TWO HEARTS, mk_card THREE DIAMONDS, mk_card FOUR CLUBS, mk_card NINE HEARTS]"

section \<open>Auxiliary facts\<close>

lemmas scenario_defs =
  mk_card_def early_position_def preflop_state_def flop_state_def flop_state_without_own_bet_def
  init_def engine_def

lemmas engine_defs =
  best_hand_type_def values_of_def has_straight_def all_suits_def multiples_def
  hand_rankings_def rankings_get_def bet_amount_def pot_odds_of_def dict_get_def

lemma small_within_double: "\<bar>x\<bar> \<le> 10 ^ 9 \<Longrightarrow> \<not> beyond_double x"
proof -
  assume a: "\<bar>x\<bar> \<le> 10 ^ 9"
  have "(10::real) ^ 9 < 2 ^ 970" by simp
  moreover have "(2::real) ^ 970 \<le> 2 ^ 1024 - 2 ^ 970" by simp
  ultimately show ?thesis using a by (simp add: beyond_double_def)
qed

lemma choose_raise_amount_lower:
  "choose_raise_amount gs min_bet max_bet factor = Inr amount \<Longrightarrow> min_bet \<le> amount"
  by (auto simp: choose_raise_amount_def Let_def split: sum.splits if_splits)

lemma choose_raise_amount_upper:
  "choose_raise_amount gs min_bet max_bet factor = Inr amount \<Longrightarrow> min_bet \<le> max_bet
   \<Longrightarrow> amount \<le> max_bet"
  by (auto simp: choose_raise_amount_def Let_def split: sum.splits if_splits)

lemma return_raise_Inr:
  "return_raise sized = Inr (a, amt) \<Longrightarrow> a = RAISE \<and> sized = Inr amt"
  by (auto simp: return_raise_def split: sum.splits)

lemma rank_value_bounds: "2 \<le> rank_value r \<and> rank_value r \<le> 14"
  by (cases r) simp_all

lemma preflop_legal_or_fold:
  "preflop E self gs hc la mn mx = Inr (a, amt) \<Longrightarrow> a \<in> set la \<or> a = FOLD"
  by (auto simp: preflop_def Let_def split: if_splits sum.splits dest: return_raise_Inr)

lemma fallback_legal_or_fold:
  "fallback_check_call_fold la = (a, amt) \<Longrightarrow> a \<in> set la \<or> a = FOLD"
  by (auto simp: fallback_check_call_fold_def split: if_splits)

lemma postflop_legal_or_fold:
  "postflop E self gs hc la mn mx = Inr (a, amt) \<Longrightarrow> a \<in> set la \<or> a = FOLD"
  by (auto simp: postflop_def Let_def split: if_splits sum.splits option.splits
      dest: fallback_legal_or_fold return_raise_Inr)

lemma preflop_state_raise:
  "choose_raise_amount preflop_state 20 1000 (PyFloat (Finite 2)) = Inr 60"
  by (simp add: choose_raise_amount_def preflop_state_def int_to_float_def
      small_within_double Let_def)

lemma pocket_aces_raise:
  "get_action (engine early_position) (init ''NATHAN'') preflop_state
     [mk_card ACE CLUBS, mk_card ACE DIAMONDS] [CALL, RAISE] 20 1000
   = ((init ''NATHAN'')\<lparr>last_raised_preflop := True\<rparr>, Inr (RAISE, 60))"
  using preflop_state_raise
  by (simp add: mk_card_def early_position_def init_def engine_def engine_defs get_action_def
      preflop_def evaluate_preflop_strength_def return_raise_def Let_def, simp add: preflop_state_def)

lemma hand_complete_aggression:
  "aggression (hand_complete self gs r) =
     (if is_winner r (name self) then min 0.8 (aggression self + 0.01)
      else max 0.3 (aggression self - 0.005))"
  by (simp add: hand_complete_def Let_def)

lemma fallback_amount: "snd (fallback_check_call_fold la) = 0 \<and> fst (fallback_check_call_fold la) \<noteq> RAISE"
  by (simp add: fallback_check_call_fold_def)

lemma return_raise_amount:
  "return_raise (choose_raise_amount gs mn mx f) = Inr (a, amt) \<Longrightarrow>
   (a = RAISE \<longrightarrow> mn \<le> amt \<and> (mn \<le> mx \<longrightarrow> amt \<le> mx)) \<and> (a \<noteq> RAISE \<longrightarrow> amt = 0)"
  by (auto dest!: return_raise_Inr dest: choose_raise_amount_lower choose_raise_amount_upper)

lemma preflop_amount:
  "preflop E self gs hc la mn mx = Inr (a, amt) \<Longrightarrow>
   (a = RAISE \<longrightarrow> mn \<le> amt \<and> (mn \<le> mx \<longrightarrow> amt \<le> mx)) \<and> (a \<noteq> RAISE \<longrightarrow> amt = 0)"
  by (auto simp: preflop_def Let_def split: if_splits sum.splits dest: return_raise_amount)

lemma postflop_amount:
  "postflop E self gs hc la mn mx = Inr (a, amt) \<Longrightarrow>
   (a = RAISE \<longrightarrow> mn \<le> amt \<and> (mn \<le> mx \<longrightarrow> amt \<le> mx)) \<and> (a \<noteq> RAISE \<longrightarrow> amt = 0)"
  using fallback_amount [of la]
  by (auto simp: postflop_def Let_def split: if_splits sum.splits option.splits
      dest: return_raise_amount)

lemma note_opponent_other:
  "q \<noteq> player \<Longrightarrow> fst (note_opponent gs r player bet opp) q = opp q"
  by (auto simp: note_opponent_def Let_def split: sum.splits)

lemma update_opponents_own:
  "fst (update_opponents own gs r items opp) own = opp own"
proof (induction items arbitrary: opp)
  case Nil
  then show ?case by simp
next
  case (Cons item items)
  obtain player bet where item: "item = (player, bet)" by (cases item)
  show ?case
  proof (cases "player = own")
    case True
    with item Cons.IH show ?thesis by simp
  next
    case False
    obtain opp' res where n: "note_opponent gs r player bet opp = (opp', res)"
      by (cases "note_opponent gs r player bet opp")
    from False have "fst (note_opponent gs r player bet opp) own = opp own"
      by (intro note_opponent_other) simp
    with n have o: "opp' own = opp own" by simp
    show ?thesis
    proof (cases res)
      case None
      with item False n o Cons.IH [of opp'] show ?thesis by simp
    next
      case (Some e)
      with item False n o show ?thesis by simp
    qed
  qed
qed

section \<open>The action returned\<close>

text \<open>
  C1. The claim is that, for a non-empty \<open>legal_actions\<close>, the action returned by
  \<open>get_action\<close> is a member of \<open>legal_actions\<close>. The source tests membership before
  it returns \<open>CHECK\<close>, \<open>CALL\<close> or \<open>RAISE\<close>, and returns \<open>FOLD\<close> without a test.
  What holds for every engine, instance, state, cards, list and bounds: when the call
  returns, the action is a member of \<open>legal_actions\<close> or it is \<open>FOLD\<close>; so it is legal
  whenever \<open>FOLD\<close> is.
\<close>

theorem get_action_legal_or_fold:
  "snd (get_action E self gs hc la mn mx) = Inr (a, amt) \<Longrightarrow> a \<in> set la \<or> a = FOLD"
  by (auto simp: get_action_def split: if_splits sum.splits
      dest: preflop_legal_or_fold postflop_legal_or_fold)

text \<open>Pocket aces before the flop, facing the big blind: the policy raises to twice the pot.\<close>

theorem get_action_legal_or_fold_witness:
  "snd (get_action (engine early_position) (init ''NATHAN'') preflop_state
          [mk_card ACE CLUBS, mk_card ACE DIAMONDS] [CALL, RAISE] 20 1000) = Inr (RAISE, 60)
   \<and> RAISE \<in> set [CALL, RAISE]"
proof -
  have run: "snd (get_action (engine early_position) (init ''NATHAN'') preflop_state
          [mk_card ACE CLUBS, mk_card ACE DIAMONDS] [CALL, RAISE] 20 1000) = Inr (RAISE, 60)"
    by (simp add: pocket_aces_raise)
  from get_action_legal_or_fold [OF run] run show ?thesis by simp
qed

text \<open>
  Seven-two offsuit before the flop, where only calling and raising are legal: the
  policy folds, and folding is not in the list.
\<close>

theorem get_action_fold_not_legal:
  "[CALL, RAISE] \<noteq> []
   \<and> snd (get_action (engine early_position) (init ''NATHAN'') preflop_state
            [mk_card SEVEN CLUBS, mk_card TWO DIAMONDS] [CALL, RAISE] 20 1000) = Inr (FOLD, 0)
   \<and> FOLD \<notin> set [CALL, RAISE]"
  by (simp add: scenario_defs engine_defs get_action_def preflop_def
      evaluate_preflop_strength_def Let_def)

section \<open>Exceptions\<close>

text \<open>
  C2. The claim is that no entry point raises, and that \<open>get_action\<close> after the flop
  returns even when \<open>player_bets\<close> has no entry for the policy's own name. With a pair
  in hand and \<open>CALL\<close> legal, line 135 subscripts \<open>player_bets\<close> with the policy's name,
  where lines 58 and 147 read it with a default of 0. On the flop below the policy holds
  a pair of aces, \<open>player_bets\<close> lacks its name, and the call raises \<open>KeyError\<close>.
\<close>

theorem get_action_postflop_KeyError:
  "snd (get_action (engine early_position) (init ''NATHAN'') flop_state_without_own_bet
          [mk_card ACE CLUBS, mk_card ACE DIAMONDS] [FOLD, CALL, RAISE] 20 1000) = Inl KeyError"
  by (simp add: scenario_defs engine_defs get_action_def postflop_def has_strong_draw_def Let_def)

section \<open>Aggression\<close>

text \<open>
  C3. From an aggression within \<open>[0.3, 0.8]\<close>, \<open>hand_complete\<close> leaves it within
  \<open>[0.3, 0.8]\<close>, whatever the state and the result of the hand; and so does
  \<open>tournament_start\<close>, for any list of players, when it returns, and also when the
  base class's hook raises without having changed the aggression. The hook is the only
  statement of \<open>tournament_start\<close> that can raise.
\<close>

theorem aggression_stays_bounded:
  "0.3 \<le> aggression self \<and> aggression self \<le> 0.8 \<Longrightarrow>
   (0.3 \<le> aggression (hand_complete self gs r) \<and> aggression (hand_complete self gs r) \<le> 0.8)
   \<and> (snd (tournament_start E self ps chips) = None
        \<or> aggression (fst (api_tournament_start E self ps chips)) = aggression self \<longrightarrow>
        0.3 \<le> aggression (fst (tournament_start E self ps chips))
        \<and> aggression (fst (tournament_start E self ps chips)) \<le> 0.8)"
proof -
  assume a: "0.3 \<le> aggression self \<and> aggression self \<le> 0.8"
  then have h: "0.3 \<le> aggression (hand_complete self gs r)
      \<and> aggression (hand_complete self gs r) \<le> 0.8"
    unfolding hand_complete_aggression by (simp add: min_def max_def)
  from a have t: "snd (tournament_start E self ps chips) = None
      \<or> aggression (fst (api_tournament_start E self ps chips)) = aggression self \<longrightarrow>
      0.3 \<le> aggression (fst (tournament_start E self ps chips))
      \<and> aggression (fst (tournament_start E self ps chips)) \<le> 0.8"
    by (auto simp: tournament_start_def Let_def split: prod.splits option.splits)
  from h t show ?thesis by blast
qed

text \<open>A fresh instance wins a hand, and starts a tournament of three.\<close>

theorem aggression_stays_bounded_witness:
  "0.3 \<le> aggression (init ''NATHAN'') \<and> aggression (init ''NATHAN'') \<le> 0.8
   \<and> snd (tournament_start (engine early_position) (init ''NATHAN'')
             [''NATHAN'', ''villain'', ''hero''] 1000) = None
   \<and> 0.3 \<le> aggression (hand_complete (init ''NATHAN'') flop_state \<lparr>winners = Some [''NATHAN'']\<rparr>)
   \<and> aggression (hand_complete (init ''NATHAN'') flop_state \<lparr>winners = Some [''NATHAN'']\<rparr>) \<le> 0.8
   \<and> 0.3 \<le> aggression (fst (tournament_start (engine early_position) (init ''NATHAN'')
                               [''NATHAN'', ''villain'', ''hero''] 1000))
   \<and> aggression (fst (tournament_start (engine early_position) (init ''NATHAN'')
                        [''NATHAN'', ''villain'', ''hero''] 1000)) \<le> 0.8"
proof -
  have h: "0.3 \<le> aggression (init ''NATHAN'') \<and> aggression (init ''NATHAN'') \<le> 0.8"
    by (simp add: init_def)
  have t: "snd (tournament_start (engine early_position) (init ''NATHAN'')
             [''NATHAN'', ''villain'', ''hero''] 1000) = None"
    by (simp add: tournament_start_def engine_def Let_def)
  from aggression_stays_bounded [OF h, of flop_state "\<lparr>winners = Some [''NATHAN'']\<rparr>"
      "engine early_position" "[''NATHAN'', ''villain'', ''hero'']" 1000] h t
  show ?thesis by simp
qed

section \<open>Raise sizing within the bounds\<close>

text \<open>
  C4. The claim is \<open>min_bet \<le> result \<le> max_bet\<close> for every pot, factor and pair of
  bounds. Two things stand against it. The last test of \<open>_choose_raise_amount\<close> returns
  \<open>min_bet\<close> whenever the clamped amount is below it, so \<open>min_bet\<close> wins over
  \<open>max_bet\<close>. And line 164 raises when the pot or the product is beyond the range of a
  double or the factor is not finite, so that there is no result. What holds: whenever
  \<open>_choose_raise_amount\<close> returns, the result is at least \<open>min_bet\<close>; it is at most
  \<open>max_bet\<close> when \<open>min_bet \<le> max_bet\<close>; and it is \<open>min_bet\<close> when
  \<open>max_bet < min_bet\<close>.
\<close>

theorem choose_raise_amount_bounds:
  "choose_raise_amount gs min_bet max_bet factor = Inr amount \<Longrightarrow>
   min_bet \<le> amount
   \<and> (min_bet \<le> max_bet \<longrightarrow> amount \<le> max_bet)
   \<and> (max_bet < min_bet \<longrightarrow> amount = min_bet)"
  by (auto simp: choose_raise_amount_def Let_def split: sum.splits if_splits)

text \<open>A pot of 30 and a factor of 2.5 between the bounds 20 and 1000 give 75.\<close>

theorem choose_raise_amount_bounds_witness:
  "choose_raise_amount preflop_state 20 1000 (PyFloat (Finite 2.5)) = Inr 75
   \<and> (20::int) \<le> 1000 \<and> \<not> (1000::int) < 20
   \<and> (20::int) \<le> 75 \<and> (75::int) \<le> 1000"
proof -
  have v: "choose_raise_amount preflop_state 20 1000 (PyFloat (Finite 2.5)) = Inr 75"
    by (simp add: choose_raise_amount_def preflop_state_def int_to_float_def
        small_within_double Let_def)
  from choose_raise_amount_bounds [OF v] v show ?thesis by simp
qed

text \<open>
  A pot of 30 and a factor of 1.0 with \<open>min_bet = 10\<close> and \<open>max_bet = 5\<close>: the call
  returns 10, above \<open>max_bet\<close>.
\<close>

theorem choose_raise_amount_exceeds_max_bet:
  "0 \<le> pot preflop_state \<and> (0::real) \<le> 1
   \<and> choose_raise_amount preflop_state 10 5 (PyFloat (Finite 1)) = Inr 10
   \<and> \<not> (10::int) \<le> 5"
  by (simp add: choose_raise_amount_def preflop_state_def int_to_float_def
      small_within_double Let_def)

section \<open>Preflop strength in the unit interval\<close>

text \<open>
  C5. For every two hole cards, \<open>_evaluate_preflop_strength\<close> returns, and its value
  lies in \<open>[0, 1]\<close>.
\<close>

theorem evaluate_preflop_strength_unit_interval:
  "\<exists>v. evaluate_preflop_strength [c1, c2] = Inr v \<and> 0 \<le> v \<and> v \<le> 1"
  using rank_value_bounds [of "rank c1"] rank_value_bounds [of "rank c2"]
  by (auto simp: evaluate_preflop_strength_def Let_def)

section \<open>No legal action\<close>

text \<open>
  C6. With an empty \<open>legal_actions\<close>, \<open>get_action\<close> returns \<open>(FOLD, 0)\<close>, for every
  engine, instance, state, hole cards and bounds.
\<close>

theorem get_action_no_legal_actions:
  "snd (get_action E self gs hc [] mn mx) = Inr (FOLD, 0)"
  by (simp add: get_action_def)

section \<open>Flush draws and wheel draws\<close>

text \<open>
  C7. \<open>_has_strong_draw\<close> is true of every list of cards in which some suit occurs at
  least four times, and of every list whose rank values include ace, two, three and four
  or include two, three, four and five, whatever the suits.
\<close>

theorem has_strong_draw_flush_or_wheel:
  "(\<exists>s. 4 \<le> count_list (map suit all_cards) s)
     \<or> {14, 2, 3, 4} \<subseteq> (\<lambda>c. rank_value (rank c)) ` set all_cards
     \<or> {2, 3, 4, 5} \<subseteq> (\<lambda>c. rank_value (rank c)) ` set all_cards
   \<Longrightarrow> has_strong_draw all_cards"
proof -
  assume a: "(\<exists>s. 4 \<le> count_list (map suit all_cards) s)
     \<or> {14, 2, 3, 4} \<subseteq> (\<lambda>c. rank_value (rank c)) ` set all_cards
     \<or> {2, 3, 4, 5} \<subseteq> (\<lambda>c. rank_value (rank c)) ` set all_cards"
  show ?thesis
  proof (cases "\<exists>s. 4 \<le> count_list (map suit all_cards) s")
    case True
    then obtain s where s: "4 \<le> count_list (map suit all_cards) s" by blast
    then have "s \<in> set (map suit all_cards)"
      by (metis count_list_0_iff not_numeral_le_zero)
    with s have "list_ex (\<lambda>s. 4 \<le> count_list (map suit all_cards) s)
        (remdups (map suit all_cards))"
      by (auto simp: list_ex_iff)
    then show ?thesis by (simp add: has_strong_draw_def Let_def)
  next
    case False
    with a have
      "list_all (\<lambda>r. r \<in> set (sort (remdups (map (\<lambda>c. rank_value (rank c)) all_cards))))
         [14, 2, 3, 4]
       \<or> list_all (\<lambda>r. r \<in> set (sort (remdups (map (\<lambda>c. rank_value (rank c)) all_cards))))
         [2, 3, 4, 5]"
      by auto
    then show ?thesis by (simp add: has_strong_draw_def Let_def)
  qed
qed

text \<open>Ace, two, three and four in four suits, with a nine: no suit occurs four times.\<close>

theorem has_strong_draw_flush_or_wheel_witness:
  "{14, 2, 3, 4} \<subseteq> (\<lambda>c. rank_value (rank c)) ` set wheel_cards
   \<and> \<not> (\<exists>s. 4 \<le> count_list (map suit wheel_cards) s)
   \<and> has_strong_draw wheel_cards"
proof -
  have h: "{14, 2, 3, 4} \<subseteq> (\<lambda>c. rank_value (rank c)) ` set wheel_cards"
    by (simp add: wheel_cards_def mk_card_def)
  have n: "\<not> (\<exists>s. 4 \<le> count_list (map suit wheel_cards) s)"
  proof
    assume "\<exists>s. 4 \<le> count_list (map suit wheel_cards) s"
    then obtain s where "4 \<le> count_list (map suit wheel_cards) s" ..
    then show False by (cases s) (simp_all add: wheel_cards_def mk_card_def)
  qed
  from h have "has_strong_draw wheel_cards"
    by (intro has_strong_draw_flush_or_wheel) blast
  with h n show ?thesis by blast
qed

section \<open>Counters after a hand\<close>

text \<open>
  C8. \<open>hand_complete\<close> adds one to \<open>hands_played\<close>. When the result has winners and
  the policy's name is among them, it adds one to \<open>hands_won\<close> and sets the aggression
  to \<open>min(0.8, aggression + 0.01)\<close>; otherwise it leaves \<open>hands_won\<close> as it was and
  sets the aggression to \<open>max(0.3, aggression - 0.005)\<close>.
\<close>

theorem hand_complete_counters:
  "hands_played (hand_complete self gs r) = hands_played self + 1
   \<and> (if \<exists>ws. winners r = Some ws \<and> name self \<in> set ws
      then hands_won (hand_complete self gs r) = hands_won self + 1
           \<and> aggression (hand_complete self gs r) = min 0.8 (aggression self + 0.01)
      else hands_won (hand_complete self gs r) = hands_won self
           \<and> aggression (hand_complete self gs r) = max 0.3 (aggression self - 0.005))"
  by (auto simp: hand_complete_def is_winner_def Let_def split: option.splits)

section \<open>The preflop raise flag\<close>

text \<open>
  C9. The claim is that every call of \<open>get_action\<close>, before or after the flop,
  overwrites \<open>last_raised_preflop\<close>, and that a postflop pass resets it. The source
  assigns the field in the preflop branch only, after \<open>_preflop\<close> has returned; the
  postflop branch reads it for the continuation bet. What holds: a call with a non-empty
  \<open>legal_actions\<close> in the round \<open>"preflop"\<close> that returns leaves the flag true exactly
  when the action returned is \<open>RAISE\<close>; every other call leaves the flag as it was.
\<close>

theorem last_raised_preflop_after_get_action:
  "last_raised_preflop (fst (get_action E self gs hc la mn mx)) =
     (if la \<noteq> [] \<and> round_name gs = ''preflop''
      then (case snd (get_action E self gs hc la mn mx) of
              Inl e \<Rightarrow> last_raised_preflop self
            | Inr action \<Rightarrow> fst action = RAISE)
      else last_raised_preflop self)"
  by (auto simp: get_action_def split: sum.splits)

text \<open>
  After the raise with pocket aces the flag is true. A preflop call with no legal action
  then returns \<open>FOLD\<close> and leaves it true; a call on the flop returns \<open>CHECK\<close> and
  leaves it true.
\<close>

theorem last_raised_preflop_not_reset:
  "last_raised_preflop after_raise = True
   \<and> snd (get_action (engine early_position) after_raise preflop_state
            [mk_card SEVEN CLUBS, mk_card TWO DIAMONDS] [] 20 1000) = Inr (FOLD, 0)
   \<and> last_raised_preflop (fst (get_action (engine early_position) after_raise preflop_state
            [mk_card SEVEN CLUBS, mk_card TWO DIAMONDS] [] 20 1000)) = True
   \<and> round_name flop_state \<noteq> ''preflop''
   \<and> snd (get_action (engine early_position) after_raise flop_state
            [mk_card ACE CLUBS, mk_card ACE DIAMONDS] [FOLD, CHECK] 20 1000) = Inr (CHECK, 0)
   \<and> last_raised_preflop (fst (get_action (engine early_position) after_raise flop_state
            [mk_card ACE CLUBS, mk_card ACE DIAMONDS] [FOLD, CHECK] 20 1000)) = True"
proof -
  have r: "after_raise = (init ''NATHAN'')\<lparr>last_raised_preflop := True\<rparr>"
    by (simp add: after_raise_def pocket_aces_raise)
  have flop: "snd (get_action (engine early_position) after_raise flop_state
            [mk_card ACE CLUBS, mk_card ACE DIAMONDS] [FOLD, CHECK] 20 1000) = Inr (CHECK, 0)"
    by (simp add: r scenario_defs engine_defs get_action_def postflop_def has_strong_draw_def
        fallback_check_call_fold_def Let_def)
  show ?thesis
    by (simp add: flop) (simp add: r get_action_def flop_state_def preflop_state_def)
qed

section \<open>The frame of a decision\<close>

text \<open>
  C10. \<open>get_action\<close> changes no field but \<open>last_raised_preflop\<close>: the name, the
  aggression, the two counters, the opponent statistics and the two thresholds are after
  the call what they were before it, whether the call returns or raises.
\<close>

theorem get_action_frame:
  "name (fst (get_action E self gs hc la mn mx)) = name self
   \<and> aggression (fst (get_action E self gs hc la mn mx)) = aggression self
   \<and> hands_played (fst (get_action E self gs hc la mn mx)) = hands_played self
   \<and> hands_won (fst (get_action E self gs hc la mn mx)) = hands_won self
   \<and> opponent_stats (fst (get_action E self gs hc la mn mx)) = opponent_stats self
   \<and> min_confidence_to_raise (fst (get_action E self gs hc la mn mx))
       = min_confidence_to_raise self
   \<and> min_confidence_to_play (fst (get_action E self gs hc la mn mx))
       = min_confidence_to_play self"
  by (auto simp: get_action_def split: sum.splits)

section \<open>Further properties\<close>

text \<open>
  X1. The amount that goes with the action: when \<open>get_action\<close> returns \<open>RAISE\<close> the
  amount is at least \<open>min_bet\<close>, and at most \<open>max_bet\<close> when the bounds are ordered;
  with every other action the amount is 0.
\<close>

theorem get_action_amount:
  "snd (get_action E self gs hc la mn mx) = Inr (a, amt) \<Longrightarrow>
   (a = RAISE \<longrightarrow> mn \<le> amt \<and> (mn \<le> mx \<longrightarrow> amt \<le> mx)) \<and> (a \<noteq> RAISE \<longrightarrow> amt = 0)"
proof -
  assume r: "snd (get_action E self gs hc la mn mx) = Inr (a, amt)"
  show ?thesis
  proof (cases "la = []")
    case True
    with r show ?thesis by (simp add: get_action_def)
  next
    case False
    show ?thesis
    proof (cases "round_name gs = ''preflop''")
      case True
      with r False have "preflop E self gs hc la mn mx = Inr (a, amt)"
        by (auto simp: get_action_def split: sum.splits if_splits)
      then show ?thesis by (rule preflop_amount)
    next
      case nopre: False
      with r False have "postflop E self gs hc la mn mx = Inr (a, amt)"
        by (simp add: get_action_def)
      then show ?thesis by (rule postflop_amount)
    qed
  qed
qed

theorem get_action_amount_witness:
  "snd (get_action (engine early_position) (init ''NATHAN'') preflop_state
          [mk_card ACE CLUBS, mk_card ACE DIAMONDS] [CALL, RAISE] 20 1000) = Inr (RAISE, 60)
   \<and> (20::int) \<le> 60 \<and> (20::int) \<le> 1000 \<and> (60::int) \<le> 1000"
proof -
  have run: "snd (get_action (engine early_position) (init ''NATHAN'') preflop_state
          [mk_card ACE CLUBS, mk_card ACE DIAMONDS] [CALL, RAISE] 20 1000) = Inr (RAISE, 60)"
    by (simp add: pocket_aces_raise)
  from get_action_amount [OF run] run show ?thesis by simp
qed

text \<open>
  X2. A pair of kings or of aces reaches the raise threshold of 0.75, whatever the suits.
\<close>

theorem pocket_kings_aces_confidence:
  "rank c1 = rank c2 \<and> (rank c1 = KING \<or> rank c1 = ACE) \<Longrightarrow>
   \<exists>v. evaluate_preflop_strength [c1, c2] = Inr v \<and> 0.75 \<le> v"
  by (auto simp: evaluate_preflop_strength_def Let_def)

theorem pocket_kings_aces_confidence_witness:
  "rank (mk_card KING HEARTS) = rank (mk_card KING SPADES)
   \<and> rank (mk_card KING HEARTS) = KING
   \<and> (\<exists>v. evaluate_preflop_strength [mk_card KING HEARTS, mk_card KING SPADES] = Inr v \<and> 0.75 \<le> v)"
proof -
  have h: "rank (mk_card KING HEARTS) = rank (mk_card KING SPADES)
      \<and> (rank (mk_card KING HEARTS) = KING \<or> rank (mk_card KING HEARTS) = ACE)"
    by (simp add: mk_card_def)
  have k: "rank (mk_card KING HEARTS) = KING"
    by (simp add: mk_card_def)
  from pocket_kings_aces_confidence [OF h] h k show ?thesis by blast
qed

text \<open>
  X3. A \<open>tournament_start\<close> that returns has set both counters to 0 and the aggression
  by the size of the table: 0.65 up to four players, 0.45 from eight, 0.55 between.
\<close>

theorem tournament_start_resets:
  "snd (tournament_start E self ps chips) = None \<Longrightarrow>
   hands_played (fst (tournament_start E self ps chips)) = 0
   \<and> hands_won (fst (tournament_start E self ps chips)) = 0
   \<and> aggression (fst (tournament_start E self ps chips)) =
       (if length ps \<le> 4 then 0.65 else if 8 \<le> length ps then 0.45 else 0.55)"
  by (auto simp: tournament_start_def Let_def split: prod.splits option.splits)

theorem tournament_start_resets_witness:
  "snd (tournament_start (engine early_position) after_raise
          [''NATHAN'', ''a'', ''b'', ''c'', ''d'', ''e''] 1000) = None
   \<and> hands_played (fst (tournament_start (engine early_position) after_raise
          [''NATHAN'', ''a'', ''b'', ''c'', ''d'', ''e''] 1000)) = 0
   \<and> aggression (fst (tournament_start (engine early_position) after_raise
          [''NATHAN'', ''a'', ''b'', ''c'', ''d'', ''e''] 1000)) = 0.55"
proof -
  have h: "snd (tournament_start (engine early_position) after_raise
          [''NATHAN'', ''a'', ''b'', ''c'', ''d'', ''e''] 1000) = None"
    by (simp add: tournament_start_def engine_def Let_def)
  from tournament_start_resets [OF h] h show ?thesis by simp
qed

text \<open>
  X4. \<open>hand_complete\<close> leaves the name, the preflop raise flag and the two thresholds
  as they were, and never writes the statistics kept under the policy's own name.
\<close>

theorem hand_complete_frame:
  "name (hand_complete self gs r) = name self
   \<and> last_raised_preflop (hand_complete self gs r) = last_raised_preflop self
   \<and> min_confidence_to_raise (hand_complete self gs r) = min_confidence_to_raise self
   \<and> min_confidence_to_play (hand_complete self gs r) = min_confidence_to_play self
   \<and> opponent_stats (hand_complete self gs r) (name self) = opponent_stats self (name self)"
  by (simp add: hand_complete_def Let_def update_opponents_own)

text \<open>
  X5. The \<open>KeyError\<close> of line 135 for every engine: after the flop, with a hand that
  ranks as a pair and below two pair, \<open>CALL\<close> legal, no continuation bet due and no entry
  for the policy's name in \<open>player_bets\<close>, \<open>get_action\<close> raises \<open>KeyError\<close>.
\<close>

theorem get_action_missing_own_bet:
  "round_name gs \<noteq> ''preflop'' \<Longrightarrow>
   evaluate_best_hand E (hc @ community_cards gs) = Inr h \<Longrightarrow>
   HAND_RANKINGS E h = Some rv \<Longrightarrow>
   rankings_get E ''pair'' 1 \<le> rv \<Longrightarrow>
   rv < rankings_get E ''two_pair'' 2 \<Longrightarrow>
   CALL \<in> set la \<Longrightarrow>
   \<not> (last_raised_preflop self \<and> current_bet gs = 0 \<and> RAISE \<in> set la) \<Longrightarrow>
   map_of (player_bets gs) (name self) = None \<Longrightarrow>
   snd (get_action E self gs hc la mn mx) = Inl KeyError"
  by (auto simp: get_action_def postflop_def Let_def)

theorem get_action_missing_own_bet_witness:
  "snd (get_action (engine early_position) (init ''NATHAN'') flop_state_without_own_bet
          [mk_card KING CLUBS, mk_card KING DIAMONDS] [CALL, FOLD] 20 1000) = Inl KeyError"
proof -
  have 1: "round_name flop_state_without_own_bet \<noteq> ''preflop''"
    by (simp add: scenario_defs)
  have 2: "evaluate_best_hand (engine early_position)
      ([mk_card KING CLUBS, mk_card KING DIAMONDS] @ community_cards flop_state_without_own_bet)
      = Inr ''pair''"
    by (simp add: scenario_defs engine_defs)
  have 3: "HAND_RANKINGS (engine early_position) ''pair'' = Some 2"
    by (simp add: scenario_defs engine_defs)
  have 4: "rankings_get (engine early_position) ''pair'' 1 \<le> 2"
    by (simp add: scenario_defs engine_defs)
  have 5: "2 < rankings_get (engine early_position) ''two_pair'' 2"
    by (simp add: scenario_defs engine_defs)
  have 6: "CALL \<in> set [CALL, FOLD]" by simp
  have 7: "\<not> (last_raised_preflop (init ''NATHAN'')
      \<and> current_bet flop_state_without_own_bet = 0 \<and> RAISE \<in> set [CALL, FOLD])"
    by (simp add: scenario_defs)
  have 8: "map_of (player_bets flop_state_without_own_bet) (name (init ''NATHAN'')) = None"
    by (simp add: scenario_defs)
  from get_action_missing_own_bet [OF 1 2 3 4 5 6 7 8] show ?thesis .
qed

text \<open>
  X6. Where line 164 raises: a pot of \<open>10^400\<close> times the float \<open>2.5\<close> and a pot of 30
  times an infinite factor raise \<open>OverflowError\<close>, a pot of 0 times an infinite factor
  raises \<open>ValueError\<close>; the same pot of \<open>10^400\<close> times the int \<open>1\<close> returns, clamped
  to \<open>max_bet\<close>.
\<close>

theorem choose_raise_amount_raises:
  "choose_raise_amount (preflop_state\<lparr>pot := 10 ^ 400\<rparr>) 20 1000 (PyFloat (Finite 2.5))
     = Inl OverflowError
   \<and> choose_raise_amount preflop_state 20 1000 (PyFloat PosInf) = Inl OverflowError
   \<and> choose_raise_amount (preflop_state\<lparr>pot := 0\<rparr>) 20 1000 (PyFloat PosInf) = Inl ValueError
   \<and> choose_raise_amount (preflop_state\<lparr>pot := 10 ^ 400\<rparr>) 20 1000 (PyInt 1) = Inr 1000"
proof -
  have big: "beyond_double (real_of_int (10 ^ 400))"
  proof -
    have "(2::real) ^ 1024 \<le> 16 ^ 256" by simp
    also have "\<dots> \<le> 10 ^ 400" by simp
    finally show ?thesis by (simp add: beyond_double_def)
  qed
  show ?thesis
    using big
    by (simp add: choose_raise_amount_def preflop_state_def int_to_float_def
        small_within_double signed_inf_def Let_def)
qed

text \<open>
  X7. \<open>_choose_raise_amount\<close> returns for every int factor, and for every finite float
  factor when neither the pot nor its product with the factor is beyond the range of a
  double.
\<close>

theorem choose_raise_amount_returns:
  "(\<exists>amount. choose_raise_amount gs mn mx (PyInt k) = Inr amount)
   \<and> (\<not> beyond_double (real_of_int (pot gs)) \<and> \<not> beyond_double (real_of_int (pot gs) * x)
        \<longrightarrow> (\<exists>amount. choose_raise_amount gs mn mx (PyFloat (Finite x)) = Inr amount))"
  by (simp add: choose_raise_amount_def int_to_float_def Let_def)

theorem choose_raise_amount_returns_witness:
  "\<not> beyond_double (real_of_int (pot preflop_state))
   \<and> \<not> beyond_double (real_of_int (pot preflop_state) * 0.6)
   \<and> (\<exists>amount. choose_raise_amount preflop_state 20 1000 (PyFloat (Finite 0.6)) = Inr amount)"
proof -
  have h: "\<not> beyond_double (real_of_int (pot preflop_state))
      \<and> \<not> beyond_double (real_of_int (pot preflop_state) * 0.6)"
    by (simp add: preflop_state_def small_within_double)
  from choose_raise_amount_returns [of preflop_state 20 1000 1 "0.6"] h show ?thesis by blast
qed

end
